theory Spec2Isabelle
  imports Complex_Main "HOL-Library.Word"
begin

section \<open>The host loop of the cloth simulation (main.go)\<close>

text \<open>
  The repository's \<^verbatim>\<open>main.go\<close> holds the window loop: on every frame it
  initialises the cloth once, feeds the hold time of the left button into the pointer
  state, drains the frame's key and pointer events into that state, and calls the
  cloth's \<^verbatim>\<open>Update\<close>. The types \<^verbatim>\<open>Mouse\<close> and \<^verbatim>\<open>Cloth\<close> are declared in
  other files of the repository; what the loop needs of them is modelled from the
  specification and marked as such.

  Conventions. Go's \<^verbatim>\<open>float32\<close>/\<^verbatim>\<open>float64\<close> values are real numbers here
  (finite values, rounding not modelled). Go's \<^verbatim>\<open>int\<close> is \<open>int\<close>; the only
  integer arithmetic is on viewport sizes, far from 64-bit overflow. A \<^verbatim>\<open>time.Time\<close>
  is the number of nanoseconds since the zero time, a \<^verbatim>\<open>time.Duration\<close> is a
  64-bit count of nanoseconds. Rendering, profiling and the debug overlay do not touch
  the state modelled here and are left out.
\<close>

subsection \<open>Constants\<close>

definition windowWidth :: int where
  "windowWidth = 940"

definition windowHeight :: int where
  "windowHeight = 580"

text \<open>\<^verbatim>\<open>var clothW int = windowWidth * 1.3\<close> and \<^verbatim>\<open>var clothH int = windowHeight * 0.4\<close>
  are exact constant expressions: 1222 and 232.\<close>

definition clothW :: int where
  "clothW = 1222"

definition clothH :: int where
  "clothH = 232"

subsection \<open>Go arithmetic\<close>

text \<open>Integer division truncates toward zero.\<close>

definition go_quot :: "int \<Rightarrow> int \<Rightarrow> int" where
  "go_quot a b = sgn a * sgn b * (\<bar>a\<bar> div \<bar>b\<bar>)"

text \<open>The conversion \<^verbatim>\<open>int(f)\<close> of a float drops the fraction.\<close>

definition go_int :: "real \<Rightarrow> int" where
  "go_int r = (if 0 \<le> r then \<lfloor>r\<rfloor> else \<lceil>r\<rceil>)"

type_synonym Time = int
type_synonym Duration = int

definition maxDuration :: Duration where
  "maxDuration = 2 ^ 63 - 1"

definition minDuration :: Duration where
  "minDuration = - (2 ^ 63)"

text \<open>\<^verbatim>\<open>t.Sub(u)\<close> saturates at the largest and smallest duration.\<close>

definition time_Sub :: "Time \<Rightarrow> Time \<Rightarrow> Duration" where
  "time_Sub t u =
     (if t - u > maxDuration then maxDuration
      else if t - u < minDuration then minDuration
      else t - u)"

definition Seconds :: "Duration \<Rightarrow> real" where
  "Seconds d = real_of_int d / 1000000000"

subsection \<open>Events delivered by the windowing library\<close>

datatype pointer_Type =
  pointer_Cancel | pointer_Press | pointer_Release | pointer_Move
  | pointer_Drag | pointer_Enter | pointer_Leave | pointer_Scroll

type_synonym pointer_Buttons = "8 word"

definition ButtonPrimary :: pointer_Buttons where
  "ButtonPrimary = 1"

definition ButtonSecondary :: pointer_Buttons where
  "ButtonSecondary = 2"

definition ButtonTertiary :: pointer_Buttons where
  "ButtonTertiary = 4"

type_synonym key_Modifiers = "32 word"

definition ModCtrl :: key_Modifiers where
  "ModCtrl = 1"

type_synonym f32_Point = "real \<times> real"

record pointer_Event =
  Type :: pointer_Type
  Buttons :: pointer_Buttons
  Position :: f32_Point
  Scroll :: f32_Point
  Modifiers :: key_Modifiers

datatype key_State = key_Press | key_Release

datatype key_Name = NameEscape | NameCtrl | NameAlt | NameSpace | NameOther string

record key_Event =
  Name :: key_Name
  State :: key_State

datatype event = PointerEvent pointer_Event | KeyEvent key_Event | OtherEvent

subsection \<open>The pointer state\<close>

text \<open>
  Modelled from the spec: the type \<^verbatim>\<open>Mouse\<close> and its methods are not in
  \<^verbatim>\<open>main.go\<close>. The specification's pointer state has the current and previous
  pointer position, a drag flag, left and right button flags, a control-modifier flag,
  a force scalar that accumulates with the hold time in seconds and is reset to zero on
  release, and an interaction radius set from scroll input and bounded by a configured
  maximum. Only the field name \<^verbatim>\<open>maxScrollY\<close> occurs in \<^verbatim>\<open>main.go\<close>; the
  methods keep the names the loop calls them by, and each does what its name and the
  specification say.
\<close>

record Mouse =
  m_position :: "real \<times> real"
  m_previous :: "real \<times> real"
  m_dragging :: bool
  m_leftButton :: bool
  m_rightButton :: bool
  m_ctrlDown :: bool
  m_force :: real
  m_scrollY :: real
  maxScrollY :: real

definition getLeftButton :: "Mouse \<Rightarrow> bool" where
  "getLeftButton m = m_leftButton m"

definition setLeftButton :: "Mouse \<Rightarrow> Mouse" where
  "setLeftButton m = m\<lparr>m_leftButton := True\<rparr>"

definition releaseLeftButton :: "Mouse \<Rightarrow> Mouse" where
  "releaseLeftButton m = m\<lparr>m_leftButton := False\<rparr>"

definition setRightButton :: "Mouse \<Rightarrow> Mouse" where
  "setRightButton m = m\<lparr>m_rightButton := True\<rparr>"

definition releaseRightButton :: "Mouse \<Rightarrow> Mouse" where
  "releaseRightButton m = m\<lparr>m_rightButton := False\<rparr>"

definition setDragging :: "Mouse \<Rightarrow> bool \<Rightarrow> Mouse" where
  "setDragging m b = m\<lparr>m_dragging := b\<rparr>"

definition setCtrlDown :: "Mouse \<Rightarrow> bool \<Rightarrow> Mouse" where
  "setCtrlDown m b = m\<lparr>m_ctrlDown := b\<rparr>"

definition increaseForce :: "Mouse \<Rightarrow> real \<Rightarrow> Mouse" where
  "increaseForce m dt = m\<lparr>m_force := m_force m + dt\<rparr>"

definition resetForce :: "Mouse \<Rightarrow> Mouse" where
  "resetForce m = m\<lparr>m_force := 0\<rparr>"

definition setScrollY :: "Mouse \<Rightarrow> real \<Rightarrow> Mouse" where
  "setScrollY m v = m\<lparr>m_scrollY := v\<rparr>"

definition getCurrentPosition :: "Mouse \<Rightarrow> pointer_Event \<Rightarrow> f32_Point" where
  "getCurrentPosition m ev = Position ev"

definition updatePosition :: "Mouse \<Rightarrow> real \<Rightarrow> real \<Rightarrow> Mouse" where
  "updatePosition m x y = m\<lparr>m_previous := m_position m, m_position := (x, y)\<rparr>"

subsection \<open>The cloth's grid\<close>

text \<open>
  Modelled from the spec: the type \<^verbatim>\<open>Cloth\<close> with \<^verbatim>\<open>NewCloth\<close>, \<^verbatim>\<open>Init\<close>
  and \<^verbatim>\<open>Reset\<close> is not in \<^verbatim>\<open>main.go\<close>. By the specification, \<open>init\<close> builds
  \<open>gridWidth \<times> gridHeight\<close> particles at \<open>spacing\<close>-pixel intervals from the origin,
  the particle of row \<open>row\<close> and column \<open>col\<close> at index \<open>row * gridWidth + col\<close>, pins
  row 0 and marks the cloth initialised; it fails fast on a non-positive grid dimension
  or spacing; \<open>reset\<close> discards the particles and runs \<open>init\<close> again. How the grid
  size follows from the pixel size given to \<^verbatim>\<open>NewCloth\<close> is not specified, so the
  grid size is a parameter. The previous position of a particle and the constraints are
  not compared by any property below and are left out.
\<close>

record Particle =
  position :: "real \<times> real"
  pinned :: bool

record Cloth =
  gridWidth :: int
  gridHeight :: int
  spacing :: int
  particles :: "Particle list"
  isInitialized :: bool

datatype cloth_error = InvalidConfiguration

definition NewCloth :: "int \<Rightarrow> int \<Rightarrow> int \<Rightarrow> Cloth" where
  "NewCloth gw gh sp =
     \<lparr>gridWidth = gw, gridHeight = gh, spacing = sp, particles = [], isInitialized = False\<rparr>"

definition build_row :: "int \<Rightarrow> int \<Rightarrow> int \<Rightarrow> int \<Rightarrow> nat \<Rightarrow> Particle list" where
  "build_row gw sp startX startY row =
     map (\<lambda>col. \<lparr>position = (real_of_int (startX + int col * sp),
                             real_of_int (startY + int row * sp)),
                 pinned = (row = 0)\<rparr>)
         [0 ..< nat gw]"

text \<open>
  \<open>Init\<close> adds the particles it builds to the store, row after row; this is why
  \<open>Reset\<close> has to discard the old ones first.
\<close>

definition Init :: "Cloth \<Rightarrow> int \<Rightarrow> int \<Rightarrow> cloth_error + Cloth" where
  "Init c startX startY =
     (if gridWidth c \<le> 0 \<or> gridHeight c \<le> 0 \<or> spacing c \<le> 0 then Inl InvalidConfiguration
      else Inr (c\<lparr>particles :=
                    particles c
                    @ concat (map (build_row (gridWidth c) (spacing c) startX startY)
                                  [0 ..< nat (gridHeight c)]),
                  isInitialized := True\<rparr>))"

definition Reset :: "Cloth \<Rightarrow> int \<Rightarrow> int \<Rightarrow> cloth_error + Cloth" where
  "Reset c startX startY = Init (c\<lparr>particles := []\<rparr>) startX startY"

subsection \<open>The loop's state\<close>

text \<open>
  The calls the loop makes on the cloth and on the window are recorded in a trace, in
  the order they are made: \<^verbatim>\<open>cloth.Init\<close> and \<^verbatim>\<open>cloth.Reset\<close> with their origin,
  \<^verbatim>\<open>cloth.Update\<close> with the pointer state and the time step it is given, and
  \<^verbatim>\<open>w.Perform(system.ActionClose)\<close>.
\<close>

datatype call =
  CInit int int
  | CReset int int
  | CUpdate Mouse real
  | ActionClose

text \<open>
  The local variables of \<^verbatim>\<open>loop\<close> that live across frames. Of the cloth the loop
  reads only \<^verbatim>\<open>cloth.isInitialized\<close>.
  Modelled from the spec: \<^verbatim>\<open>Init\<close> marks the cloth initialised, \<^verbatim>\<open>Reset\<close> runs
  \<^verbatim>\<open>Init\<close> again and so leaves it initialised, and \<^verbatim>\<open>Update\<close> changes neither
  the flag nor the pointer state it is handed. The program's configuration
  (1222 by 232 pixels, spacing 8) is valid, so \<^verbatim>\<open>Init\<close> does not fail in the loop.
\<close>

record loop_state =
  initTime :: Time
  deltaTime :: Duration
  scrollY :: real
  mouse :: Mouse
  isDragging :: bool
  cloth_isInitialized :: bool
  trace :: "call list"

definition new_Mouse :: Mouse where
  "new_Mouse =
     \<lparr>m_position = (0, 0), m_previous = (0, 0), m_dragging = False, m_leftButton = False,
      m_rightButton = False, m_ctrlDown = False, m_force = 0, m_scrollY = 0,
      maxScrollY = 200\<rparr>"

definition loop_start :: loop_state where
  "loop_start =
     \<lparr>initTime = 0, deltaTime = 0, scrollY = 0, mouse = new_Mouse, isDragging = False,
      cloth_isInitialized = False, trace = []\<rparr>"

text \<open>
  A frame event carries the viewport size (\<^verbatim>\<open>gtx.Constraints.Max\<close>), the clock
  reading \<^verbatim>\<open>time.Now()\<close> taken at the top of the frame, and the queued input events,
  each with the clock reading taken while it is handled (only a press reads it).
\<close>

record FrameEvent =
  Max_X :: int
  Max_Y :: int
  Now :: Time
  Queue :: "(event \<times> Time) list"

datatype window_event =
  DestroyEvent "string option"
  | Frame FrameEvent
  | OtherWindowEvent

subsection \<open>One frame\<close>

text \<open>
  Lines 97 to 104: the guarded first initialisation. The product
  \<^verbatim>\<open>float64(height) * 0.2\<close> is taken in the reals; for a viewport height the
  rounded product has the same integer part.
\<close>

definition ensureInit :: "loop_state \<Rightarrow> FrameEvent \<Rightarrow> loop_state" where
  "ensureInit s e =
     (if \<not> cloth_isInitialized s then
        (let width = Max_X e;
             height = Max_Y e;
             startX = go_quot width 2 - go_quot clothW 2;
             startY = go_int (real_of_int height * 0.2)
         in s\<lparr>cloth_isInitialized := True, trace := trace s @ [CInit startX startY]\<rparr>)
      else s)"

text \<open>Lines 126 to 129: the hold time of the left button feeds the force.\<close>

definition holdForce :: "loop_state \<Rightarrow> FrameEvent \<Rightarrow> loop_state" where
  "holdForce s e =
     (if getLeftButton (mouse s) then
        (let d = time_Sub (Now e) (initTime s)
         in s\<lparr>deltaTime := d, mouse := increaseForce (mouse s) (Seconds d)\<rparr>)
      else s)"

text \<open>Lines 132 to 146: key events.\<close>

definition handleKey :: "FrameEvent \<Rightarrow> loop_state \<Rightarrow> key_Event \<Rightarrow> loop_state" where
  "handleKey e s k =
     (let s1 =
        (if State k = key_Press then
           (if Name k = NameSpace then
              (let width = Max_X e;
                   height = Max_Y e;
                   startX = go_quot width 2 - go_quot clothW 2;
                   startY = go_int (real_of_int height * 0.2)
               in s\<lparr>cloth_isInitialized := True, trace := trace s @ [CReset startX startY]\<rparr>)
            else s)
         else s)
      in if Name k = NameEscape then s1\<lparr>trace := trace s1 @ [ActionClose]\<rparr> else s1)"

text \<open>Lines 150 to 178: the switch on the type of a pointer event.\<close>

definition onType :: "loop_state \<Rightarrow> pointer_Event \<Rightarrow> Time \<Rightarrow> loop_state" where
  "onType s ev now =
     (case Type ev of
        pointer_Scroll \<Rightarrow>
          (let y1 = scrollY s + snd (Scroll ev);
               y2 = (if y1 < 0 then 0
                     else if y1 > maxScrollY (mouse s) then maxScrollY (mouse s)
                     else y1)
           in s\<lparr>scrollY := y2, mouse := setScrollY (mouse s) y2\<rparr>)
      | pointer_Move \<Rightarrow>
          (let pos = getCurrentPosition (mouse s) ev
           in s\<lparr>mouse := updatePosition (mouse s) (fst pos) (snd pos)\<rparr>)
      | pointer_Press \<Rightarrow>
          (let m1 = (if Modifiers ev = ModCtrl then setCtrlDown (mouse s) True else mouse s)
           in s\<lparr>mouse := setLeftButton m1, initTime := now\<rparr>)
      | pointer_Release \<Rightarrow>
          s\<lparr>isDragging := False,
            mouse := setCtrlDown
                       (setDragging
                          (releaseRightButton (releaseLeftButton (resetForce (mouse s))))
                          False)
                       False\<rparr>
      | pointer_Drag \<Rightarrow> s\<lparr>isDragging := True\<rparr>
      | _ \<Rightarrow> s)"

text \<open>Lines 179 to 189: the switch on the pressed buttons of a pointer event.\<close>

definition onButtons :: "loop_state \<Rightarrow> pointer_Event \<Rightarrow> loop_state" where
  "onButtons s ev =
     (if Buttons ev = ButtonPrimary then
        (let m1 = setLeftButton (mouse s);
             pos = getCurrentPosition m1 ev;
             m2 = updatePosition m1 (fst pos) (snd pos)
         in s\<lparr>mouse := setDragging m2 (isDragging s)\<rparr>)
      else if Buttons ev = ButtonSecondary then
        (let m1 = setRightButton (mouse s);
             pos = getCurrentPosition m1 ev
         in s\<lparr>mouse := updatePosition m1 (fst pos) (snd pos)\<rparr>)
      else s)"

text \<open>The body of the loop over the frame's queued events.\<close>

fun handleEvent :: "FrameEvent \<Rightarrow> loop_state \<Rightarrow> event \<times> Time \<Rightarrow> loop_state" where
  "handleEvent e s (KeyEvent k, now) = handleKey e s k"
| "handleEvent e s (PointerEvent ev, now) = onButtons (onType s ev now) ev"
| "handleEvent e s (OtherEvent, now) = s"

definition drain :: "FrameEvent \<Rightarrow> loop_state \<Rightarrow> loop_state" where
  "drain e s = foldl (handleEvent e) s (Queue e)"

text \<open>Line 194: the simulation step, always with the literal time step.\<close>

definition update :: "loop_state \<Rightarrow> loop_state" where
  "update s = s\<lparr>trace := trace s @ [CUpdate (mouse s) 0.015]\<rparr>"

definition frame :: "loop_state \<Rightarrow> FrameEvent \<Rightarrow> loop_state" where
  "frame s e = update (drain e (holdForce (ensureInit s e) e))"

subsection \<open>The loop\<close>

text \<open>
  The loop runs until the window is destroyed. On a finite prefix of the window's events
  it either returns the error of the destroy event, or is still waiting (\<open>None\<close>).
\<close>

fun loop :: "loop_state \<Rightarrow> window_event list \<Rightarrow> string option option \<times> loop_state" where
  "loop s [] = (None, s)"
| "loop s (DestroyEvent err # es) = (Some err, s)"
| "loop s (Frame e # es) = loop (frame s e) es"
| "loop s (OtherWindowEvent # es) = loop s es"


subsection \<open>Reading a trace\<close>

fun is_CInit :: "call \<Rightarrow> bool" where
  "is_CInit (CInit x y) = True"
| "is_CInit _ = False"

text \<open>The time steps handed to \<^verbatim>\<open>cloth.Update\<close>, in order.\<close>

fun update_dts :: "call list \<Rightarrow> real list" where
  "update_dts [] = []"
| "update_dts (CUpdate m dt # cs) = dt # update_dts cs"
| "update_dts (_ # cs) = update_dts cs"


text \<open>The number of frame events the loop handles before it returns.\<close>

fun frames_run :: "window_event list \<Rightarrow> nat" where
  "frames_run [] = 0"
| "frames_run (DestroyEvent err # es) = 0"
| "frames_run (Frame e # es) = Suc (frames_run es)"
| "frames_run (OtherWindowEvent # es) = frames_run es"

text \<open>The scroll accumulator and the radius stored in the pointer state are in range.\<close>

definition scroll_ok :: "loop_state \<Rightarrow> bool" where
  "scroll_ok s =
     (0 \<le> scrollY s \<and> scrollY s \<le> maxScrollY (mouse s)
      \<and> m_scrollY (mouse s) = scrollY s \<and> maxScrollY (mouse s) = 200)"



text \<open>
  Before the first frame nothing has been called; from then on the trace starts with the
  one call of \<^verbatim>\<open>Init\<close>.
\<close>

definition init_inv :: "loop_state \<Rightarrow> bool" where
  "init_inv s =
     (if cloth_isInitialized s
      then (case trace s of CInit x y # rest \<Rightarrow> filter is_CInit rest = [] | _ \<Rightarrow> False)
      else trace s = [])"

subsection \<open>Concrete inputs\<close>

text \<open>A pointer event at (100, 100) with no scroll and no modifier.\<close>

definition ptr :: "pointer_Type \<Rightarrow> pointer_Buttons \<Rightarrow> event" where
  "ptr t b =
     PointerEvent \<lparr>Type = t, Buttons = b, Position = (100, 100), Scroll = (0, 0), Modifiers = 0\<rparr>"

text \<open>A scroll event with the given vertical delta and no button down.\<close>

definition scroll_by :: "real \<Rightarrow> event" where
  "scroll_by d =
     PointerEvent \<lparr>Type = pointer_Scroll, Buttons = 0, Position = (100, 100), Scroll = (0, d),
                   Modifiers = 0\<rparr>"

text \<open>A frame of the window at its initial size.\<close>

definition frame_at :: "Time \<Rightarrow> (event \<times> Time) list \<Rightarrow> FrameEvent" where
  "frame_at t q = \<lparr>Max_X = 940, Max_Y = 580, Now = t, Queue = q\<rparr>"


text \<open>A used two-by-two cloth whose one remaining particle has drifted.\<close>

definition stale :: Cloth where
  "stale = \<lparr>gridWidth = 2, gridHeight = 2, spacing = 8,
            particles = [\<lparr>position = (3, 400), pinned = False\<rparr>], isInitialized = True\<rparr>"

section \<open>Properties\<close>

lemmas mouse_defs = getLeftButton_def setLeftButton_def releaseLeftButton_def
  setRightButton_def releaseRightButton_def setDragging_def setCtrlDown_def
  increaseForce_def resetForce_def setScrollY_def getCurrentPosition_def updatePosition_def

lemmas btn_defs = ButtonPrimary_def ButtonSecondary_def ButtonTertiary_def ModCtrl_def

lemmas run_defs = frame_def update_def drain_def holdForce_def ensureInit_def onType_def
  onButtons_def handleKey_def loop_start_def new_Mouse_def ptr_def frame_at_def Let_def
  go_quot_def go_int_def clothW_def time_Sub_def Seconds_def maxDuration_def minDuration_def

subsection \<open>What a frame adds to the trace\<close>

text \<open>
  Events add only \<^verbatim>\<open>Reset\<close> and close requests to the trace; a frame adds at most
  one \<^verbatim>\<open>Init\<close>, those, and last its \<^verbatim>\<open>Update\<close>.
\<close>

lemma update_dts_append: "update_dts (xs @ ys) = update_dts xs @ update_dts ys"
  by (induction xs rule: update_dts.induct) simp_all

lemma trace_handleKey:
  "\<exists>k. trace (handleKey e s key) = trace s @ k \<and> filter is_CInit k = [] \<and> update_dts k = []"
  by (simp add: handleKey_def Let_def)

lemma trace_onType: "trace (onType s ev now) = trace s"
  by (cases "Type ev") (simp_all add: onType_def Let_def)

lemma trace_onButtons: "trace (onButtons s ev) = trace s"
  by (simp add: onButtons_def Let_def)

lemma trace_handleEvent:
  "\<exists>k. trace (handleEvent e s q) = trace s @ k \<and> filter is_CInit k = [] \<and> update_dts k = []"
  by (cases "(e, s, q)" rule: handleEvent.cases)
     (simp_all add: trace_handleKey trace_onType trace_onButtons)

lemma trace_foldl:
  "\<exists>k. trace (foldl (handleEvent e) s q) = trace s @ k \<and> filter is_CInit k = []
       \<and> update_dts k = []"
proof (induction q arbitrary: s)
  case Nil
  then show ?case by simp
next
  case (Cons a q)
  obtain k1 where k1: "trace (handleEvent e s a) = trace s @ k1" "filter is_CInit k1 = []"
      "update_dts k1 = []"
    using trace_handleEvent by blast
  obtain k2 where k2:
      "trace (foldl (handleEvent e) (handleEvent e s a) q) = trace (handleEvent e s a) @ k2"
      "filter is_CInit k2 = []" "update_dts k2 = []"
    using Cons.IH by blast
  have "trace (foldl (handleEvent e) s (a # q)) = trace s @ (k1 @ k2)"
    using k1 k2 by simp
  moreover have "filter is_CInit (k1 @ k2) = []"
    using k1 k2 by simp
  moreover have "update_dts (k1 @ k2) = []"
    using k1 k2 by (simp add: update_dts_append)
  ultimately show ?case by blast
qed

lemma trace_drain:
  "\<exists>k. trace (drain e s) = trace s @ k \<and> filter is_CInit k = [] \<and> update_dts k = []"
  unfolding drain_def by (rule trace_foldl)

lemma trace_holdForce: "trace (holdForce s e) = trace s"
  by (simp add: holdForce_def Let_def)

lemma trace_ensureInit:
  "\<exists>i. trace (ensureInit s e) = trace s @ i \<and> update_dts i = []"
  by (cases "cloth_isInitialized s") (simp_all add: ensureInit_def Let_def)

lemma trace_frame:
  "\<exists>pre. trace (frame s e) = trace s @ pre @ [CUpdate (mouse (frame s e)) 0.015]
         \<and> update_dts pre = []"
proof -
  obtain k where k:
      "trace (drain e (holdForce (ensureInit s e) e)) = trace (holdForce (ensureInit s e) e) @ k"
      "update_dts k = []"
    using trace_drain by blast
  obtain i where i: "trace (ensureInit s e) = trace s @ i" "update_dts i = []"
    using trace_ensureInit by blast
  have "trace (frame s e) = trace s @ (i @ k) @ [CUpdate (mouse (frame s e)) 0.015]"
    using k i by (simp add: frame_def update_def trace_holdForce)
  moreover have "update_dts (i @ k) = []"
    using k i by (simp add: update_dts_append)
  ultimately show ?thesis by blast
qed

lemma update_dts_frame: "update_dts (trace (frame s e)) = update_dts (trace s) @ [0.015]"
proof -
  obtain pre where "trace (frame s e) = trace s @ pre @ [CUpdate (mouse (frame s e)) 0.015]"
      "update_dts pre = []"
    using trace_frame by blast
  then show ?thesis by (simp add: update_dts_append)
qed

lemma update_dts_loop:
  "update_dts (trace (snd (loop s es))) = update_dts (trace s) @ replicate (frames_run es) 0.015"
  by (induction s es rule: loop.induct) (simp_all add: update_dts_frame replicate_append_same)

subsection \<open>The scroll accumulator stays in range\<close>

lemma scroll_ok_ensureInit: "scroll_ok s \<Longrightarrow> scroll_ok (ensureInit s e)"
  by (simp add: scroll_ok_def ensureInit_def Let_def)

lemma scroll_ok_holdForce: "scroll_ok s \<Longrightarrow> scroll_ok (holdForce s e)"
  by (simp add: scroll_ok_def holdForce_def Let_def mouse_defs)

lemma scroll_ok_handleKey: "scroll_ok s \<Longrightarrow> scroll_ok (handleKey e s k)"
  by (simp add: scroll_ok_def handleKey_def Let_def)

lemma scroll_ok_onType: "scroll_ok s \<Longrightarrow> scroll_ok (onType s ev now)"
  by (cases "Type ev") (simp_all add: scroll_ok_def onType_def Let_def mouse_defs)

lemma scroll_ok_onButtons: "scroll_ok s \<Longrightarrow> scroll_ok (onButtons s ev)"
  by (simp add: scroll_ok_def onButtons_def Let_def mouse_defs)

lemma scroll_ok_handleEvent: "scroll_ok s \<Longrightarrow> scroll_ok (handleEvent e s q)"
  by (cases "(e, s, q)" rule: handleEvent.cases)
     (simp_all add: scroll_ok_handleKey scroll_ok_onType scroll_ok_onButtons)

lemma scroll_ok_foldl: "scroll_ok s \<Longrightarrow> scroll_ok (foldl (handleEvent e) s q)"
  by (induction q arbitrary: s) (simp_all add: scroll_ok_handleEvent)

lemma scroll_ok_frame:
  assumes "scroll_ok s"
  shows "scroll_ok (frame s e)"
proof -
  have "scroll_ok (drain e (holdForce (ensureInit s e) e))"
    unfolding drain_def
    using assms by (intro scroll_ok_foldl scroll_ok_holdForce scroll_ok_ensureInit)
  then show ?thesis
    by (simp add: frame_def update_def scroll_ok_def)
qed

lemma scroll_ok_loop: "scroll_ok s \<Longrightarrow> scroll_ok (snd (loop s es))"
  by (induction s es rule: loop.induct) (simp_all add: scroll_ok_frame)

lemma scroll_ok_start: "scroll_ok loop_start"
  by (simp add: scroll_ok_def loop_start_def new_Mouse_def)

lemma scroll_event:
  assumes "scroll_ok s"
  shows "scrollY (handleEvent e s (PointerEvent (ev\<lparr>Type := pointer_Scroll\<rparr>), now))
           = max 0 (min 200 (scrollY s + snd (Scroll ev))) \<and>
         m_scrollY (mouse (handleEvent e s (PointerEvent (ev\<lparr>Type := pointer_Scroll\<rparr>), now)))
           = max 0 (min 200 (scrollY s + snd (Scroll ev)))"
  using assms
  by (simp add: scroll_ok_def onType_def onButtons_def Let_def mouse_defs max_def min_def)

text \<open>
  C1. Let the loop have handled any window events. Its scroll accumulator then lies
  between 0 and the configured maximum 200 and is the radius stored in the pointer state.
  A further scroll event adds its delta to the accumulator, a sum below 0 becomes 0 and
  a sum above 200 becomes 200, and this clamped value is what \<^verbatim>\<open>setScrollY\<close> stores.
  The clamp is a plain conditional: there is no error result on this path.
\<close>

theorem scroll_radius_clamped:
  "(0 \<le> scrollY (snd (loop loop_start es)) \<and>
    scrollY (snd (loop loop_start es)) \<le> maxScrollY (mouse (snd (loop loop_start es))) \<and>
    maxScrollY (mouse (snd (loop loop_start es))) = 200 \<and>
    m_scrollY (mouse (snd (loop loop_start es))) = scrollY (snd (loop loop_start es))) \<and>
   scrollY (handleEvent e (snd (loop loop_start es))
              (PointerEvent (ev\<lparr>Type := pointer_Scroll\<rparr>), now))
     = max 0 (min 200 (scrollY (snd (loop loop_start es)) + snd (Scroll ev))) \<and>
   m_scrollY (mouse (handleEvent e (snd (loop loop_start es))
              (PointerEvent (ev\<lparr>Type := pointer_Scroll\<rparr>), now)))
     = max 0 (min 200 (scrollY (snd (loop loop_start es)) + snd (Scroll ev)))"
proof -
  have ok: "scroll_ok (snd (loop loop_start es))"
    by (rule scroll_ok_loop [OF scroll_ok_start])
  from ok scroll_event [OF ok, of e ev now] show ?thesis
    by (simp only: scroll_ok_def) simp
qed

text \<open>Scrolling by -80, 50 and 500 from an accumulator of 0, 0 and 50.\<close>

lemma scroll_examples:
  "scrollY (snd (loop loop_start [Frame (frame_at 0 [(scroll_by (- 80), 0)])])) = 0 \<and>
   scrollY (snd (loop loop_start [Frame (frame_at 0 [(scroll_by 50, 0)])])) = 50 \<and>
   scrollY (snd (loop loop_start
      [Frame (frame_at 0 [(scroll_by 50, 0), (scroll_by 500, 0)])])) = 200 \<and>
   m_scrollY (mouse (snd (loop loop_start
      [Frame (frame_at 0 [(scroll_by 50, 0), (scroll_by 500, 0)])]))) = 200"
  by (simp add: run_defs mouse_defs btn_defs scroll_by_def)

subsection \<open>Release events\<close>

lemma release_mouse:
  "mouse (handleEvent e s (PointerEvent (ev\<lparr>Type := pointer_Release\<rparr>), now)) =
     (if Buttons ev = ButtonPrimary then
        (mouse s)\<lparr>m_force := 0, m_leftButton := True, m_rightButton := False,
                   m_dragging := False, m_ctrlDown := False,
                   m_previous := m_position (mouse s), m_position := Position ev\<rparr>
      else if Buttons ev = ButtonSecondary then
        (mouse s)\<lparr>m_force := 0, m_leftButton := False, m_rightButton := True,
                   m_dragging := False, m_ctrlDown := False,
                   m_previous := m_position (mouse s), m_position := Position ev\<rparr>
      else
        (mouse s)\<lparr>m_force := 0, m_leftButton := False, m_rightButton := False,
                   m_dragging := False, m_ctrlDown := False\<rparr>)"
  by (simp add: onType_def onButtons_def Let_def mouse_defs btn_defs)

text \<open>
  C2, as stated, fails: with both buttons down, releasing the right one delivers a
  release event whose pressed buttons are exactly the primary one, and the switch on the
  buttons sets the left-button flag again after the release case has cleared it.
\<close>

theorem release_keeps_held_left_button:
  "m_leftButton (mouse (snd (loop loop_start
     [Frame (frame_at 0 [(ptr pointer_Press 1, 10), (ptr pointer_Press 3, 20),
                         (ptr pointer_Release ButtonPrimary, 30)])])))"
  by (simp add: run_defs mouse_defs btn_defs)

text \<open>
  C2, amended. After a release event is handled the drag flag is clear and the force is
  zero, and the left-button flag is clear unless the event's pressed buttons are exactly
  the primary button. When the release is the last event of a frame's queue, that is the
  pointer state the frame's \<^verbatim>\<open>Update\<close> receives.
\<close>

theorem release_returns_to_idle:
  assumes "Queue e = q @ [(PointerEvent ev, now)]" and "Type ev = pointer_Release"
  shows "(\<not> m_dragging (mouse (handleEvent e s' (PointerEvent ev, now))) \<and>
          m_force (mouse (handleEvent e s' (PointerEvent ev, now))) = 0 \<and>
          m_leftButton (mouse (handleEvent e s' (PointerEvent ev, now)))
            = (Buttons ev = ButtonPrimary)) \<and>
         (\<exists>pre m. trace (frame s e) = trace s @ pre @ [CUpdate m 0.015] \<and>
            \<not> m_dragging m \<and> m_force m = 0 \<and>
            m_leftButton m = (Buttons ev = ButtonPrimary))"
proof -
  have ev: "ev = ev\<lparr>Type := pointer_Release\<rparr>"
    using assms(2) by simp
  have event: "\<not> m_dragging (mouse (handleEvent e t (PointerEvent ev, now))) \<and>
      m_force (mouse (handleEvent e t (PointerEvent ev, now))) = 0 \<and>
      m_leftButton (mouse (handleEvent e t (PointerEvent ev, now))) = (Buttons ev = ButtonPrimary)"
    for t
    by (subst ev, subst ev, subst ev) (simp add: release_mouse del: handleEvent.simps)
  define t where "t = foldl (handleEvent e) (holdForce (ensureInit s e) e) q"
  have m: "mouse (frame s e) = mouse (handleEvent e t (PointerEvent ev, now))"
    by (simp add: frame_def update_def drain_def assms(1) t_def)
  obtain pre where "trace (frame s e) = trace s @ pre @ [CUpdate (mouse (frame s e)) 0.015]"
    using trace_frame by blast
  with m event [of t] have "\<exists>pre m. trace (frame s e) = trace s @ pre @ [CUpdate m 0.015] \<and>
      \<not> m_dragging m \<and> m_force m = 0 \<and> m_leftButton m = (Buttons ev = ButtonPrimary)"
    by metis
  with event [of s'] show ?thesis by blast
qed

theorem release_returns_to_idle_witness:
  "Queue (frame_at 0 [(ptr pointer_Press 1, 10), (ptr pointer_Release 0, 20)])
     = [(ptr pointer_Press 1, 10)]
       @ [(PointerEvent \<lparr>Type = pointer_Release, Buttons = 0, Position = (100, 100),
                         Scroll = (0, 0), Modifiers = 0\<rparr>, 20)] \<and>
   (\<exists>pre m. trace (frame loop_start
                (frame_at 0 [(ptr pointer_Press 1, 10), (ptr pointer_Release 0, 20)]))
              = trace loop_start @ pre @ [CUpdate m 0.015] \<and>
            \<not> m_dragging m \<and> m_force m = 0 \<and> \<not> m_leftButton m)"
  using release_returns_to_idle
    [of "frame_at 0 [(ptr pointer_Press 1, 10), (ptr pointer_Release 0, 20)]"
        "[(ptr pointer_Press 1, 10)]"
        "\<lparr>Type = pointer_Release, Buttons = 0, Position = (100, 100),
          Scroll = (0, 0), Modifiers = 0\<rparr>" 20 loop_start loop_start]
  by (simp add: frame_at_def ptr_def btn_defs)

text \<open>
  C10, as stated, fails: with both buttons down, releasing the left one delivers a
  release event whose pressed buttons are exactly the secondary one, and the right-button
  flag is set when the event has been handled.
\<close>

theorem release_keeps_held_right_button:
  "m_rightButton (mouse (snd (loop loop_start
     [Frame (frame_at 0 [(ptr pointer_Press 2, 10), (ptr pointer_Press 3, 20),
                         (ptr pointer_Release ButtonSecondary, 30)])])))"
  by (simp add: run_defs mouse_defs btn_defs)

text \<open>
  C10, amended. The release case of the switch on the event type clears the control and
  drag flags and both button flags and resets the force, whichever button was released.
  The switch on the pressed buttons, which follows for the same event, then sets the
  left-button flag again exactly when the pressed buttons are the primary one alone, and
  the right-button flag exactly when they are the secondary one alone.
\<close>

theorem release_clears_flags:
  "(\<not> m_ctrlDown (mouse (onType s (ev\<lparr>Type := pointer_Release\<rparr>) now)) \<and>
    \<not> m_dragging (mouse (onType s (ev\<lparr>Type := pointer_Release\<rparr>) now)) \<and>
    \<not> m_leftButton (mouse (onType s (ev\<lparr>Type := pointer_Release\<rparr>) now)) \<and>
    \<not> m_rightButton (mouse (onType s (ev\<lparr>Type := pointer_Release\<rparr>) now)) \<and>
    m_force (mouse (onType s (ev\<lparr>Type := pointer_Release\<rparr>) now)) = 0) \<and>
   (\<not> m_ctrlDown (mouse (handleEvent e s (PointerEvent (ev\<lparr>Type := pointer_Release\<rparr>), now))) \<and>
    \<not> m_dragging (mouse (handleEvent e s (PointerEvent (ev\<lparr>Type := pointer_Release\<rparr>), now))) \<and>
    \<not> isDragging (handleEvent e s (PointerEvent (ev\<lparr>Type := pointer_Release\<rparr>), now)) \<and>
    m_force (mouse (handleEvent e s (PointerEvent (ev\<lparr>Type := pointer_Release\<rparr>), now))) = 0 \<and>
    m_leftButton (mouse (handleEvent e s (PointerEvent (ev\<lparr>Type := pointer_Release\<rparr>), now)))
      = (Buttons ev = ButtonPrimary) \<and>
    m_rightButton (mouse (handleEvent e s (PointerEvent (ev\<lparr>Type := pointer_Release\<rparr>), now)))
      = (Buttons ev = ButtonSecondary))"
  by (simp add: onType_def onButtons_def Let_def mouse_defs btn_defs)

subsection \<open>Events precede the simulation step\<close>

text \<open>
  C5. What a frame adds to the trace ends with its one call of \<^verbatim>\<open>Update\<close>; the
  pointer state that call receives is the state after every queued event of the frame
  has been folded in, and it is the pointer state the frame ends with.
\<close>

theorem events_folded_before_update:
  "\<exists>pre. trace (frame s e) = trace s @ pre @ [CUpdate (mouse (frame s e)) 0.015] \<and>
         update_dts pre = [] \<and>
         mouse (frame s e)
           = mouse (foldl (handleEvent e) (holdForce (ensureInit s e) e) (Queue e))"
proof -
  have "mouse (frame s e)
      = mouse (foldl (handleEvent e) (holdForce (ensureInit s e) e) (Queue e))"
    by (simp add: frame_def update_def drain_def)
  with trace_frame [of s e] show ?thesis by auto
qed

subsection \<open>Key events\<close>

text \<open>
  C6. A key event changes nothing but the cloth and the window: a press of Space calls
  \<^verbatim>\<open>Reset\<close> with the origin computed from the frame's viewport, and an event for
  Escape (a press included) asks the window to close. The pointer state, the scroll
  accumulator, the drag flag and the press time are as before.
\<close>

theorem key_events_effect:
  "handleEvent e s (KeyEvent k, now) =
     s\<lparr>cloth_isInitialized :=
         (State k = key_Press \<and> Name k = NameSpace) \<or> cloth_isInitialized s,
       trace := trace s
         @ (if State k = key_Press \<and> Name k = NameSpace
            then [CReset (go_quot (Max_X e) 2 - go_quot clothW 2)
                         (go_int (real_of_int (Max_Y e) * 0.2))]
            else [])
         @ (if Name k = NameEscape then [ActionClose] else [])\<rparr>"
  by (simp add: handleKey_def Let_def)

subsection \<open>The right button\<close>

text \<open>
  An event that is neither a press nor a release and whose pressed buttons are the
  secondary one alone moves the pointer position and sets the right-button flag; the
  left-button flag, the drag flag and the force stay as they are.
\<close>

lemma secondary_tracks_position:
  assumes "Type ev \<noteq> pointer_Press" and "Type ev \<noteq> pointer_Release"
    and "Buttons ev = ButtonSecondary"
  shows "m_leftButton (mouse (handleEvent e s (PointerEvent ev, now))) = m_leftButton (mouse s) \<and>
         m_dragging (mouse (handleEvent e s (PointerEvent ev, now))) = m_dragging (mouse s) \<and>
         m_force (mouse (handleEvent e s (PointerEvent ev, now))) = m_force (mouse s) \<and>
         m_rightButton (mouse (handleEvent e s (PointerEvent ev, now))) \<and>
         m_position (mouse (handleEvent e s (PointerEvent ev, now))) = Position ev"
  using assms
  by (cases "Type ev") (simp_all add: onType_def onButtons_def Let_def mouse_defs btn_defs)

text \<open>
  C7. A press of the right button alone, then a frame 16 ms later with no event: the
  press case sets the left-button flag whichever button went down, so the flag is set
  and the next frame adds the hold time to the force.
\<close>

theorem right_press_sets_left_button:
  "m_leftButton (mouse (snd (loop loop_start
      [Frame (frame_at 0 [(ptr pointer_Press ButtonSecondary, 1000)]),
       Frame (frame_at 16001000 [])]))) \<and>
   m_force (mouse (snd (loop loop_start
      [Frame (frame_at 0 [(ptr pointer_Press ButtonSecondary, 1000)]),
       Frame (frame_at 16001000 [])]))) = 0.016"
  by (simp add: run_defs mouse_defs btn_defs)

subsection \<open>The time step\<close>

text \<open>
  C9. Every frame the loop handles calls \<^verbatim>\<open>Update\<close> once, with the time step 0.015:
  the time steps in the trace are as many copies of 0.015 as frames were handled,
  whatever the clock readings of the frames are.
\<close>

theorem update_step_constant:
  "update_dts (trace (snd (loop loop_start es))) = replicate (frames_run es) 0.015"
  using update_dts_loop [of loop_start es] by (simp add: loop_start_def)

subsection \<open>The force while the left button is held\<close>










subsection \<open>The cloth is initialised once\<close>

text \<open>
  No event clears the cloth's flag, and no event calls \<^verbatim>\<open>Init\<close>: \<open>init_inv\<close>
  holds at the start and after every frame.
\<close>

lemma init_flag_handleEvent:
  "cloth_isInitialized s \<Longrightarrow> cloth_isInitialized (handleEvent e s q)"
  by (cases "(e, s, q)" rule: handleEvent.cases)
     (simp_all add: handleKey_def onType_def onButtons_def Let_def split: pointer_Type.splits)

lemma init_flag_foldl:
  "cloth_isInitialized s \<Longrightarrow> cloth_isInitialized (foldl (handleEvent e) s q)"
  by (induction q arbitrary: s) (simp_all add: init_flag_handleEvent)

lemma init_inv_frame:
  assumes "init_inv s"
  shows "init_inv (frame s e) \<and> cloth_isInitialized (frame s e)"
proof -
  define s1 where "s1 = holdForce (ensureInit s e) e"
  have s1: "cloth_isInitialized s1 \<and>
      (\<exists>x y rest. trace s1 = CInit x y # rest \<and> filter is_CInit rest = [])"
    using assms
    by (cases "cloth_isInitialized s")
       (auto simp: s1_def init_inv_def holdForce_def ensureInit_def Let_def
             split: list.splits call.splits)
  then obtain x y rest where tr: "trace s1 = CInit x y # rest" "filter is_CInit rest = []"
    by blast
  obtain k where k: "trace (drain e s1) = trace s1 @ k" "filter is_CInit k = []"
    using trace_drain by blast
  have flag: "cloth_isInitialized (drain e s1)"
    using s1 by (simp add: drain_def init_flag_foldl)
  have "trace (frame s e) = CInit x y # (rest @ k @ [CUpdate (mouse (drain e s1)) 0.015])"
    using tr k by (simp add: frame_def update_def s1_def)
  moreover have "filter is_CInit (rest @ k @ [CUpdate (mouse (drain e s1)) 0.015]) = []"
    using tr k by simp
  moreover have "cloth_isInitialized (frame s e)"
    using flag by (simp add: frame_def update_def s1_def)
  ultimately show ?thesis by (simp add: init_inv_def)
qed

lemma init_inv_loop: "init_inv s \<Longrightarrow> init_inv (snd (loop s es))"
  by (induction s es rule: loop.induct) (simp_all add: init_inv_frame)

lemma init_flag_loop:
  "init_inv s \<Longrightarrow> cloth_isInitialized s \<Longrightarrow> cloth_isInitialized (snd (loop s es))"
  by (induction s es rule: loop.induct) (simp_all add: init_inv_frame)

lemma init_flag_after_frame:
  "init_inv s \<Longrightarrow> 0 < frames_run es \<Longrightarrow> cloth_isInitialized (snd (loop s es))"
  by (induction s es rule: loop.induct) (simp_all add: init_inv_frame init_flag_loop)

lemma init_inv_start: "init_inv loop_start"
  by (simp add: init_inv_def loop_start_def)

lemma init_inv_count: "init_inv s \<Longrightarrow> length (filter is_CInit (trace s)) \<le> 1"
  by (auto simp: init_inv_def split: if_splits list.splits call.splits)

text \<open>
  C4. Over any run of the loop \<^verbatim>\<open>Init\<close> is called at most once, and once a frame
  has been handled it has been called exactly once, as the first call of all: before
  every \<^verbatim>\<open>Update\<close> and every \<^verbatim>\<open>Reset\<close>.
\<close>

theorem cloth_init_once:
  "length (filter is_CInit (trace (snd (loop loop_start es)))) \<le> 1 \<and>
   (0 < frames_run es \<longrightarrow>
      (\<exists>x y rest. trace (snd (loop loop_start es)) = CInit x y # rest \<and>
                  filter is_CInit rest = []))"
proof -
  have inv: "init_inv (snd (loop loop_start es))"
    by (rule init_inv_loop [OF init_inv_start])
  have "\<exists>x y rest. trace (snd (loop loop_start es)) = CInit x y # rest \<and>
                  filter is_CInit rest = []"
    if "0 < frames_run es"
    using init_flag_after_frame [OF init_inv_start that] inv
    by (auto simp: init_inv_def split: list.splits call.splits)
  with init_inv_count [OF inv] show ?thesis by blast
qed

theorem cloth_init_once_witness:
  "0 < frames_run
        [Frame (frame_at 0 []),
         Frame (frame_at 16000000 [(KeyEvent \<lparr>Name = NameSpace, State = key_Press\<rparr>, 16000001)])] \<and>
   trace (snd (loop loop_start
        [Frame (frame_at 0 []),
         Frame (frame_at 16000000 [(KeyEvent \<lparr>Name = NameSpace, State = key_Press\<rparr>, 16000001)])]))
     = [CInit (- 141) 116, CUpdate new_Mouse 0.015, CReset (- 141) 116, CUpdate new_Mouse 0.015] \<and>
   filter is_CInit [CUpdate new_Mouse 0.015, CReset (- 141) 116, CUpdate new_Mouse 0.015] = []"
  using cloth_init_once [of "[Frame (frame_at 0 []),
         Frame (frame_at 16000000 [(KeyEvent \<lparr>Name = NameSpace, State = key_Press\<rparr>, 16000001)])]"]
  by (simp add: run_defs mouse_defs)

subsection \<open>The grid built by Init and Reset\<close>

lemma length_build_row: "length (build_row gw sp x y row) = nat gw"
  by (simp add: build_row_def)

lemma nth_build_row:
  "col < nat gw \<Longrightarrow> build_row gw sp x y row ! col =
     \<lparr>position = (real_of_int (x + int col * sp), real_of_int (y + int row * sp)),
      pinned = (row = 0)\<rparr>"
  by (simp add: build_row_def)

lemma length_grid:
  "length (concat (map (build_row gw sp x y) [0 ..< n])) = n * nat gw"
  by (induction n) (simp_all add: length_build_row)

lemma nth_grid:
  assumes "row < n" and "col < nat gw"
  shows "concat (map (build_row gw sp x y) [0 ..< n]) ! (row * nat gw + col) =
           \<lparr>position = (real_of_int (x + int col * sp), real_of_int (y + int row * sp)),
            pinned = (row = 0)\<rparr>"
  using assms
proof (induction n)
  case 0
  then show ?case by simp
next
  case (Suc n)
  show ?case
  proof (cases "row < n")
    case True
    then have "row * nat gw + col < n * nat gw"
    proof -
      from True have "Suc row \<le> n" by simp
      then have "Suc row * nat gw \<le> n * nat gw" by (rule mult_le_mono1)
      with Suc.prems(2) show ?thesis by simp
    qed
    with Suc.IH [OF True Suc.prems(2)] show ?thesis
      by (simp add: nth_append length_grid)
  next
    case False
    with Suc.prems(1) have "row = n" by simp
    with Suc.prems(2) show ?thesis
      by (simp add: nth_append length_grid nth_build_row)
  qed
qed

text \<open>
  The grid of a new cloth: \<open>gridHeight * gridWidth\<close> particles, the one of row \<open>row\<close>
  and column \<open>col\<close> at index \<open>row * gridWidth + col\<close>, \<open>spacing\<close> apart from the
  origin, pinned in row 0.
\<close>

lemma fresh_Init_grid:
  assumes "0 < gw" and "0 < gh" and "0 < sp"
  shows "\<exists>c'. Init (NewCloth gw gh sp) x y = Inr c' \<and> isInitialized c' \<and>
           length (particles c') = nat gh * nat gw \<and>
           (\<forall>row < nat gh. \<forall>col < nat gw.
              particles c' ! (row * nat gw + col) =
                \<lparr>position = (real_of_int (x + int col * sp), real_of_int (y + int row * sp)),
                 pinned = (row = 0)\<rparr>)"
  using assms by (simp add: Init_def NewCloth_def length_grid nth_grid)

lemma Reset_eq_fresh_Init:
  "Reset c x y = Init (NewCloth (gridWidth c) (gridHeight c) (spacing c)) x y"
  by (cases c) (simp add: Reset_def Init_def NewCloth_def)

text \<open>
  C8. Under the same viewport the Space key hands \<^verbatim>\<open>Reset\<close> the origin that the
  first frame hands \<^verbatim>\<open>Init\<close>; \<^verbatim>\<open>Reset\<close> on a used cloth gives the very cloth
  (particle count, positions, pins) that \<^verbatim>\<open>Init\<close> gives on a new cloth of the same
  configuration, or fails as it does; and the guarded initialisation of a later frame
  adds nothing, the cloth being initialised.
\<close>

theorem reset_rebuilds_same_grid:
  assumes "Max_X e2 = Max_X e1" and "Max_Y e2 = Max_Y e1" and "\<not> cloth_isInitialized s1"
  shows "\<exists>x y. trace (ensureInit s1 e1) = trace s1 @ [CInit x y] \<and>
           trace (handleEvent e2 s2 (KeyEvent \<lparr>Name = NameSpace, State = key_Press\<rparr>, now))
             = trace s2 @ [CReset x y] \<and>
           Reset c x y = Init (NewCloth (gridWidth c) (gridHeight c) (spacing c)) x y \<and>
           ensureInit (handleEvent e2 s2 (KeyEvent \<lparr>Name = NameSpace, State = key_Press\<rparr>, now)) e3
             = handleEvent e2 s2 (KeyEvent \<lparr>Name = NameSpace, State = key_Press\<rparr>, now)"
  using assms by (simp add: ensureInit_def handleKey_def Let_def Reset_eq_fresh_Init)

theorem reset_rebuilds_same_grid_witness:
  "Max_X (frame_at 16000000 []) = Max_X (frame_at 0 []) \<and>
   Max_Y (frame_at 16000000 []) = Max_Y (frame_at 0 []) \<and>
   \<not> cloth_isInitialized loop_start \<and>
   (\<exists>x y. trace (ensureInit loop_start (frame_at 0 [])) = trace loop_start @ [CInit x y] \<and>
      trace (handleEvent (frame_at 16000000 []) (frame loop_start (frame_at 0 []))
               (KeyEvent \<lparr>Name = NameSpace, State = key_Press\<rparr>, 16000001))
        = trace (frame loop_start (frame_at 0 [])) @ [CReset x y] \<and>
      Reset stale x y = Init (NewCloth 2 2 8) x y)"
  using reset_rebuilds_same_grid [of "frame_at 16000000 []" "frame_at 0 []" loop_start
      "frame loop_start (frame_at 0 [])" 16000001 stale "frame_at 32000000 []"]
  by (auto simp: frame_at_def loop_start_def stale_def)

text \<open>The used cloth, rebuilt at the origin of the initial window.\<close>

lemma stale_rebuilt:
  "Reset stale (- 141) 116 =
     Inr \<lparr>gridWidth = 2, gridHeight = 2, spacing = 8,
          particles = [\<lparr>position = (- 141, 116), pinned = True\<rparr>,
                       \<lparr>position = (- 133, 116), pinned = True\<rparr>,
                       \<lparr>position = (- 141, 124), pinned = False\<rparr>,
                       \<lparr>position = (- 133, 124), pinned = False\<rparr>],
          isInitialized = True\<rparr>"
  by (simp add: Reset_def Init_def stale_def build_row_def upt_rec)

end
